theory Spec2Isabelle
  imports Main
begin

section \<open>The built-in connect proxy (connect/proxy/proxy.go)\<close>

text \<open>
  The file verified here holds the proxy's constructors (\<open>New\<close>, \<open>NewFromConfigFile\<close>),
  its event loop \<open>Serve\<close>, the listener-start protocol \<open>startListener\<close> and \<open>Close\<close>.
  Everything else it touches (the connect package's services, the listeners, the
  configuration types and their \<open>applyDefaults\<close> and \<open>String\<close> methods, the config
  watchers) is declared outside the file. Objects of those packages are opaque handles
  here, and the functions the file calls on them are the fields of the record \<open>deps\<close>,
  a parameter of every definition that calls one.
\<close>

subsection \<open>Data\<close>

text \<open>Go \<open>error\<close> values, and handles of objects the file only passes around.\<close>

datatype error = Error string

datatype client = Client nat

datatype service = Service nat

datatype resolver = Resolver nat

datatype public_listener_config = PublicListenerConfig string

text \<open>
  \<open>UpstreamConfig\<close>: the file reads \<open>LocalBindPort\<close> and writes \<open>resolver\<close>; the fields it
  never names are kept together in \<open>ucFields\<close>.
\<close>

record upstream_config =
  LocalBindPort :: int
  resolver :: "resolver option"
  ucFields :: string

text \<open>\<open>Config\<close>, with the fields the file names.\<close>

record config =
  ProxyID :: string
  ProxiedServiceID :: string
  DevCAFile :: string
  DevServiceCertFile :: string
  DevServiceKeyFile :: string
  PublicListener :: public_listener_config
  Upstreams :: "upstream_config list"

text \<open>
  \<open>NewStaticConfigWatcher(cfg)\<close> cannot fail and is a constructor;
  \<open>NewAgentConfigWatcher\<close> can, and hands out a handle.
\<close>

datatype config_watcher = NewStaticConfigWatcher config | AgentConfigWatcher nat

text \<open>A \<open>chan struct{}\<close> on which nothing is ever sent: it is open or closed.\<close>

datatype chan = Open | Closed

text \<open>
  \<open>Proxy\<close>. A \<open>*connect.Service\<close> that may be nil is a \<open>service option\<close>. The logger
  field is the trace of the system state below.
\<close>

record Proxy =
  proxyID :: string
  client :: client
  cfgWatcher :: config_watcher
  stopChan :: chan
  service :: "service option"

text \<open>
  \<open>NewPublicListener\<close> and \<open>NewUpstreamListener\<close> return a \<open>*Listener\<close> and no error:
  a listener is the record of the call that built it.
\<close>

datatype listener =
    NewPublicListener "service option" public_listener_config
  | NewUpstreamListener "service option" upstream_config

text \<open>The functions of other files and packages that this file calls.\<close>

record deps =
  ParseConfigFile :: "string \<Rightarrow> error + config"
  NewDevServiceFromCertFiles :: "string \<Rightarrow> string \<Rightarrow> string \<Rightarrow> string \<Rightarrow> error + service"
  NewAgentConfigWatcher :: "client \<Rightarrow> string \<Rightarrow> error + config_watcher"
  NewService :: "string \<Rightarrow> client \<Rightarrow> error + service"
  plApplyDefaults :: "public_listener_config \<Rightarrow> public_listener_config"
  ucApplyDefaults :: "upstream_config \<Rightarrow> upstream_config"
  ucString :: "upstream_config \<Rightarrow> string"
  UpstreamResolverFromClient :: "client \<Rightarrow> upstream_config \<Rightarrow> resolver"
  BindAddr :: "listener \<Rightarrow> string"
  leafAndRoots :: "service \<Rightarrow> (string \<times> string) option"

subsection \<open>Effects\<close>

text \<open>The lines the file logs, one constructor per format string.\<close>

datatype log_line =
    GotNewConfig
  | ReadyToServe
  | LeafRoots string string
  | NoLocalBindPort string
  | FailedToStartUpstream string error
  | Starting string string
  | StoppedWithError string error
  | Stopped string

text \<open>
  What the file does to the world outside its own variables, in the order it happens:
  a logged line, \<open>close(p.stopChan)\<close>, \<open>p.service.Close()\<close>, \<open>l.Close()\<close>.
\<close>

datatype effect =
    Printf log_line
  | ChanClose
  | ServiceClose service
  | ListenerClose listener

text \<open>
  The three \<open>go func() { ... }()\<close> statements of the file: the readiness logger of
  \<open>Serve\<close>, and the two goroutines of \<open>startListener\<close>.
\<close>

datatype goroutine =
    ReadyLogger service
  | ListenerServe string listener
  | StopWaiter listener

text \<open>
  The state the file's code runs on: the proxy object, the goroutines spawned so far
  (each with a flag that is True once its body has returned) and the trace of effects.
\<close>

record sys =
  proxy :: Proxy
  spawned :: "(goroutine \<times> bool) list"
  trace :: "effect list"

definition printf :: "log_line \<Rightarrow> sys \<Rightarrow> sys" where
  "printf ln s = s\<lparr>trace := trace s @ [Printf ln]\<rparr>"

definition go :: "goroutine \<Rightarrow> sys \<Rightarrow> sys" where
  "go g s = s\<lparr>spawned := spawned s @ [(g, False)]\<rparr>"

subsection \<open>Constructors\<close>

definition NewFromConfigFile :: "deps \<Rightarrow> client \<Rightarrow> string \<Rightarrow> error + Proxy" where
  "NewFromConfigFile d cl filename =
     (case ParseConfigFile d filename of
        Inl err \<Rightarrow> Inl err
      | Inr cfg \<Rightarrow>
          (case NewDevServiceFromCertFiles d (ProxiedServiceID cfg) (DevCAFile cfg)
                  (DevServiceCertFile cfg) (DevServiceKeyFile cfg) of
             Inl err \<Rightarrow> Inl err
           | Inr svc \<Rightarrow>
               Inr \<lparr>proxyID = ProxyID cfg, client = cl,
                    cfgWatcher = NewStaticConfigWatcher cfg, stopChan = Open,
                    service = Some svc\<rparr>))"

definition New :: "deps \<Rightarrow> client \<Rightarrow> string \<Rightarrow> error + Proxy" where
  "New d cl pid =
     (case NewAgentConfigWatcher d cl pid of
        Inl err \<Rightarrow> Inl err
      | Inr cw \<Rightarrow>
          Inr \<lparr>proxyID = pid, client = cl, cfgWatcher = cw, stopChan = Open,
               service = None\<rparr>)"

subsection \<open>startListener\<close>

text \<open>
  \<open>startListener\<close> logs the start, spawns the goroutine that runs \<open>l.Serve()\<close>, spawns the
  goroutine that waits for the stop channel, and returns nil (\<open>None\<close>).
\<close>

definition startListener :: "deps \<Rightarrow> string \<Rightarrow> listener \<Rightarrow> sys \<Rightarrow> error option \<times> sys" where
  "startListener d name l s =
     (None, go (StopWaiter l) (go (ListenerServe name l) (printf (Starting name (BindAddr d l)) s)))"

subsection \<open>Serve\<close>

text \<open>
  \<open>Serve\<close> calls \<open>p.startListener\<close> and tests the error it returns. The loop is written
  over any function of \<open>startListener\<close>'s type, so that both branches of each test are
  branches of the model; \<open>Serve\<close> itself is the loop over \<open>startListener\<close>.
\<close>

type_synonym starter = "string \<Rightarrow> listener \<Rightarrow> sys \<Rightarrow> error option \<times> sys"

text \<open>
  The initial setup, run when \<open>cfg == nil\<close>: the result is the error returned, if any,
  the snapshot object (whose public listener config has had its defaults applied in
  place) and the new state.
\<close>

definition Serve_setup :: "deps \<Rightarrow> starter \<Rightarrow> config \<Rightarrow> sys \<Rightarrow> error option \<times> config \<times> sys" where
  "Serve_setup d start newCfg s =
     (case NewService d (ProxiedServiceID newCfg) (client (proxy s)) of
        Inl err \<Rightarrow> (Some err, newCfg, s)
      | Inr svc \<Rightarrow>
          (let s1 = s\<lparr>proxy := (proxy s)\<lparr>service := Some svc\<rparr>\<rparr>;
               s2 = go (ReadyLogger svc) s1;
               newCfg1 = newCfg\<lparr>PublicListener := plApplyDefaults d (PublicListener newCfg)\<rparr>;
               l = NewPublicListener (service (proxy s2)) (PublicListener newCfg1)
           in (case start ''public listener'' l s2 of
                 (err, s3) \<Rightarrow> (err, newCfg1, s3))))"

text \<open>
  The first two statements of the upstream loop's body: defaults, then the resolver.
  The loop variable is a copy of the slice element, so the snapshot keeps its entry.
\<close>

definition prepareUpstream :: "deps \<Rightarrow> client \<Rightarrow> upstream_config \<Rightarrow> upstream_config" where
  "prepareUpstream d cl uc0 =
     (let uc = ucApplyDefaults d uc0
      in uc\<lparr>resolver := Some (UpstreamResolverFromClient d cl uc)\<rparr>)"

text \<open>The loop \<open>for _, uc := range newCfg.Upstreams\<close>.\<close>

fun Serve_upstreams :: "deps \<Rightarrow> starter \<Rightarrow> upstream_config list \<Rightarrow> sys \<Rightarrow> sys" where
  "Serve_upstreams d start [] s = s"
| "Serve_upstreams d start (uc0 # ucs) s =
     (let uc = prepareUpstream d (client (proxy s)) uc0 in
      if LocalBindPort uc < 1 then
        Serve_upstreams d start ucs (printf (NoLocalBindPort (ucString d uc)) s)
      else
        (case start (ucString d uc) (NewUpstreamListener (service (proxy s)) uc) s of
           (None, s1) \<Rightarrow> Serve_upstreams d start ucs s1
         | (Some err, s1) \<Rightarrow>
             Serve_upstreams d start ucs
               (printf (FailedToStartUpstream (ucString d uc) err) s1)))"

text \<open>
  Where \<open>Serve\<close> stands between two iterations: waiting in \<open>select\<close> with its local
  variable \<open>cfg\<close>, or returned with an error or nil.
\<close>

datatype serve_status = Selecting "config option" | Returned "error option"

text \<open>The case of the \<open>select\<close> that fires in one iteration.\<close>

datatype select_case = NewCfg config | StopChan

text \<open>The body of \<open>case newCfg := <-p.cfgWatcher.Watch()\<close>.\<close>

definition Serve_newCfg :: "deps \<Rightarrow> starter \<Rightarrow> config option \<Rightarrow> config \<Rightarrow> sys \<Rightarrow> serve_status \<times> sys" where
  "Serve_newCfg d start cfg newCfg s =
     (let s0 = printf GotNewConfig s in
      case (if cfg = None then Serve_setup d start newCfg s0 else (None, newCfg, s0)) of
        (Some err, newCfg1, s1) \<Rightarrow> (Returned (Some err), s1)
      | (None, newCfg1, s1) \<Rightarrow>
          (Selecting (Some newCfg1), Serve_upstreams d start (Upstreams newCfg1) s1))"

text \<open>One iteration of the loop.\<close>

fun Serve_select :: "deps \<Rightarrow> starter \<Rightarrow> config option \<Rightarrow> select_case \<Rightarrow> sys \<Rightarrow> serve_status \<times> sys" where
  "Serve_select d start cfg (NewCfg newCfg) s = Serve_newCfg d start cfg newCfg s"
| "Serve_select d start cfg StopChan s = (Returned None, s)"

text \<open>
  The loop, over the cases that fire in its successive iterations. When the list runs
  out \<open>Serve\<close> is still waiting in \<open>select\<close>.
\<close>

fun Serve_loop :: "deps \<Rightarrow> starter \<Rightarrow> config option \<Rightarrow> select_case list \<Rightarrow> sys \<Rightarrow> serve_status \<times> sys" where
  "Serve_loop d start cfg [] s = (Selecting cfg, s)"
| "Serve_loop d start cfg (c # cs) s =
     (case Serve_select d start cfg c s of
        (Returned r, s1) \<Rightarrow> (Returned r, s1)
      | (Selecting cfg1, s1) \<Rightarrow> Serve_loop d start cfg1 cs s1)"

definition Serve :: "deps \<Rightarrow> select_case list \<Rightarrow> sys \<Rightarrow> serve_status \<times> sys" where
  "Serve d cs s = Serve_loop d (startListener d) None cs s"

subsection \<open>Close\<close>

text \<open>Closing a closed channel panics; the service is closed after the channel.\<close>

datatype panic = CloseOfClosedChannel | NilDereference

definition Close :: "sys \<Rightarrow> panic + sys" where
  "Close s =
     (case stopChan (proxy s) of
        Closed \<Rightarrow> Inl CloseOfClosedChannel
      | Open \<Rightarrow>
          (let s1 = s\<lparr>proxy := (proxy s)\<lparr>stopChan := Closed\<rparr>, trace := trace s @ [ChanClose]\<rparr>
           in Inr (case service (proxy s1) of
                     None \<Rightarrow> s1
                   | Some svc \<Rightarrow> s1\<lparr>trace := trace s1 @ [ServiceClose svc]\<rparr>)))"

subsection \<open>Goroutines and their interleaving\<close>

text \<open>
  A step that cannot be taken in a state (a receive from the open stop channel, a
  goroutine that has returned, \<open>Serve\<close> after its return), or one that panics.
\<close>

datatype stuck = NotEnabled | Panics panic

text \<open>
  The body of a goroutine, run in one step. The readiness logger runs once the service
  is ready; it dereferences the certificate and the leaf without a check, which panics
  when there is none (\<open>leafAndRoots\<close> is \<open>None\<close>; a panic ends the process, and the
  state is dropped with it). The serving goroutine is given the
  value \<open>r\<close> that \<open>l.Serve()\<close> returns. The waiting goroutine receives from the stop
  channel, which delivers only once the channel is closed, and then closes the listener.
\<close>

fun runGoroutine :: "deps \<Rightarrow> goroutine \<Rightarrow> error option \<Rightarrow> sys \<Rightarrow> stuck + sys" where
  "runGoroutine d (ReadyLogger svc) r s =
     (case leafAndRoots d svc of
        None \<Rightarrow> Inl (Panics NilDereference)
      | Some (leaf, roots) \<Rightarrow> Inr (printf (LeafRoots leaf roots) (printf ReadyToServe s)))"
| "runGoroutine d (ListenerServe name l) r s =
     (case r of
        Some err \<Rightarrow> Inr (printf (StoppedWithError name err) s)
      | None \<Rightarrow> Inr (printf (Stopped name) s))"
| "runGoroutine d (StopWaiter l) r s =
     (case stopChan (proxy s) of
        Open \<Rightarrow> Inl NotEnabled
      | Closed \<Rightarrow> Inr (s\<lparr>trace := trace s @ [ListenerClose l]\<rparr>))"

text \<open>
  What can happen next in the running system: \<open>Serve\<close>'s \<open>select\<close> takes a case, some
  other goroutine calls \<open>p.Close()\<close>, or the \<open>i\<close>-th spawned goroutine runs.
\<close>

datatype event = Select select_case | CallClose | Run nat "error option"

text \<open>
  One event, on the status of \<open>Serve\<close> and the state. The stop case of the \<open>select\<close> is
  taken only when the stop channel is closed.
\<close>

fun step :: "deps \<Rightarrow> event \<Rightarrow> serve_status \<times> sys \<Rightarrow> stuck + serve_status \<times> sys" where
  "step d (Select c) (Returned r, s) = Inl NotEnabled"
| "step d (Select StopChan) (Selecting cfg, s) =
     (case stopChan (proxy s) of
        Open \<Rightarrow> Inl NotEnabled
      | Closed \<Rightarrow> Inr (Serve_select d (startListener d) cfg StopChan s))"
| "step d (Select (NewCfg newCfg)) (Selecting cfg, s) =
     Inr (Serve_select d (startListener d) cfg (NewCfg newCfg) s)"
| "step d CallClose (st, s) =
     (case Close s of
        Inl p \<Rightarrow> Inl (Panics p)
      | Inr s1 \<Rightarrow> Inr (st, s1))"
| "step d (Run i r) (st, s) =
     (if i < length (spawned s) then
        (case spawned s ! i of
           (g, True) \<Rightarrow> Inl NotEnabled
         | (g, False) \<Rightarrow>
             (case runGoroutine d g r s of
                Inl x \<Rightarrow> Inl x
              | Inr s1 \<Rightarrow> Inr (st, s1\<lparr>spawned := (spawned s1)[i := (g, True)]\<rparr>)))
      else Inl NotEnabled)"

fun run :: "deps \<Rightarrow> event list \<Rightarrow> serve_status \<times> sys \<Rightarrow> stuck + serve_status \<times> sys" where
  "run d [] w = Inr w"
| "run d (e # es) w =
     (case step d e w of
        Inl x \<Rightarrow> Inl x
      | Inr w1 \<Rightarrow> run d es w1)"

text \<open>\<open>Serve\<close> called on a proxy, before its first iteration.\<close>

definition boot :: "Proxy \<Rightarrow> serve_status \<times> sys" where
  "boot p = (Selecting None, \<lparr>proxy = p, spawned = [], trace = []\<rparr>)"

subsection \<open>Observations on states\<close>







subsection \<open>A concrete proxy\<close>

text \<open>
  A configuration with a public listener and two upstreams, one on port 5000 and one
  without a port; collaborators that refuse an empty service id; a proxy as \<open>New\<close>
  builds it; and a listener-start function that always fails.
\<close>

definition example_config :: config where
  "example_config =
     \<lparr>ProxyID = ''web-proxy'', ProxiedServiceID = ''web'', DevCAFile = ''ca.pem'',
      DevServiceCertFile = ''web.pem'', DevServiceKeyFile = ''web.key'',
      PublicListener = PublicListenerConfig '':8443'',
      Upstreams = [\<lparr>LocalBindPort = 5000, resolver = None, ucFields = ''db''\<rparr>,
                   \<lparr>LocalBindPort = 0, resolver = None, ucFields = ''cache''\<rparr>]\<rparr>"

definition example_deps :: deps where
  "example_deps =
     \<lparr>ParseConfigFile =
        (\<lambda>f. if f = ''proxy.hcl'' then Inr example_config else Inl (Error ''no such file'')),
      NewDevServiceFromCertFiles = (\<lambda>sid ca cert key. Inr (Service 0)),
      NewAgentConfigWatcher = (\<lambda>cl pid. Inr (AgentConfigWatcher 0)),
      NewService =
        (\<lambda>sid cl. if sid = [] then Inl (Error ''no service id'') else Inr (Service 1)),
      plApplyDefaults = (\<lambda>c. c),
      ucApplyDefaults = (\<lambda>u. u),
      ucString = ucFields,
      UpstreamResolverFromClient = (\<lambda>cl u. Resolver 0),
      BindAddr = (\<lambda>l. ''127.0.0.1''),
      leafAndRoots = (\<lambda>svc. Some (''spiffe://web'', ''root''))\<rparr>"

definition example_proxy :: Proxy where
  "example_proxy =
     \<lparr>proxyID = ''web-proxy'', client = Client 0, cfgWatcher = AgentConfigWatcher 0,
      stopChan = Open, service = None\<rparr>"

definition example_sys :: sys where
  "example_sys = \<lparr>proxy = example_proxy, spawned = [], trace = []\<rparr>"

definition refusing_start :: starter where
  "refusing_start name l s = (Some (Error ''address in use''), s)"

lemmas example_defs = example_config_def example_deps_def example_proxy_def example_sys_def
  refusing_start_def

lemmas model_defs = Serve_def Serve_newCfg_def Serve_setup_def startListener_def printf_def
  go_def prepareUpstream_def Close_def boot_def Let_def New_def NewFromConfigFile_def

section \<open>Properties\<close>

subsection \<open>Basic facts about the state operations\<close>

lemma printf_simps [simp]:
  "proxy (printf ln s) = proxy s"
  "spawned (printf ln s) = spawned s"
  "trace (printf ln s) = trace s @ [Printf ln]"
  by (simp_all add: printf_def)

lemma go_simps [simp]:
  "proxy (go g s) = proxy s"
  "spawned (go g s) = spawned s @ [(g, False)]"
  "trace (go g s) = trace s"
  by (simp_all add: go_def)

lemma startListener_simps [simp]:
  "fst (startListener d name l s) = None"
  "proxy (snd (startListener d name l s)) = proxy s"
  "spawned (snd (startListener d name l s)) =
     spawned s @ [(ListenerServe name l, False), (StopWaiter l, False)]"
  "trace (snd (startListener d name l s)) = trace s @ [Printf (Starting name (BindAddr d l))]"
  by (simp_all add: startListener_def)

lemma startListener_eq:
  "startListener d name l s = (r, s1) \<longleftrightarrow>
     r = None \<and> s1 = go (StopWaiter l) (go (ListenerServe name l) (printf (Starting name (BindAddr d l)) s))"
  by (auto simp: startListener_def)

lemma startListener_snd:
  "snd (startListener d name l s) =
     go (StopWaiter l) (go (ListenerServe name l) (printf (Starting name (BindAddr d l)) s))"
  by (simp add: startListener_def)

lemma Serve_loop_append:
  "fst (Serve_loop d start cfg pre s) = Selecting cfg1 \<Longrightarrow>
   Serve_loop d start cfg (pre @ cs) s =
     Serve_loop d start cfg1 cs (snd (Serve_loop d start cfg pre s))"
proof (induction pre arbitrary: cfg s)
  case Nil
  then show ?case by simp
next
  case (Cons c pre)
  then show ?case
    by (cases "Serve_select d start cfg c s"; cases "fst (Serve_select d start cfg c s)")
       (auto split: serve_status.splits)
qed

lemma runGoroutine_frame:
  "runGoroutine d g r s = Inr s1 \<Longrightarrow> proxy s1 = proxy s \<and> spawned s1 = spawned s"
  by (cases g) (auto split: option.splits chan.splits)

lemma Close_frame:
  "Close s = Inr s1 \<Longrightarrow> spawned s1 = spawned s \<and> stopChan (proxy s1) = Closed"
  by (auto simp: Close_def Let_def split: chan.splits option.splits)

lemma step_Returned:
  "step d e (Returned r, s) = Inr (st, s1) \<Longrightarrow>
   st = Returned r \<and> map fst (spawned s1) = map fst (spawned s) \<and> (\<forall>c. e \<noteq> Select c)"
proof (cases e)
  case (Select c)
  assume "step d e (Returned r, s) = Inr (st, s1)"
  with Select show ?thesis by simp
next
  case CallClose
  assume "step d e (Returned r, s) = Inr (st, s1)"
  with CallClose show ?thesis
    by (auto split: sum.splits dest: Close_frame)
next
  case (Run i x)
  assume a: "step d e (Returned r, s) = Inr (st, s1)"
  show ?thesis
  proof (cases "spawned s ! i")
    case (Pair g b)
    with a Run show ?thesis
      by (auto split: if_splits sum.splits bool.splits dest!: runGoroutine_frame
               simp: map_update list_update_same_conv)
  qed
qed

lemma run_Returned:
  "run d es (Returned r, s) = Inr (st, s1) \<Longrightarrow>
   st = Returned r \<and> map fst (spawned s1) = map fst (spawned s) \<and> (\<forall>c. Select c \<notin> set es)"
proof (induction es arbitrary: s)
  case Nil
  then show ?case by simp
next
  case (Cons e es)
  from Cons.prems obtain w where w: "step d e (Returned r, s) = Inr w" and r: "run d es w = Inr (st, s1)"
    by (auto split: sum.splits)
  obtain st2 s2 where w2: "w = (st2, s2)" by (cases w)
  from step_Returned [OF w [unfolded w2]]
  have st2: "st2 = Returned r" and sp: "map fst (spawned s2) = map fst (spawned s)"
    and ne: "\<forall>c. e \<noteq> Select c" by auto
  from Cons.IH [of s2] r w2 st2
  have "st = Returned r \<and> map fst (spawned s1) = map fst (spawned s2) \<and> (\<forall>c. Select c \<notin> set es)"
    by simp
  with sp ne show ?case by auto
qed

subsection \<open>The upstream loop\<close>

lemma Serve_upstreams_append:
  "Serve_upstreams d start (xs @ ys) s = Serve_upstreams d start ys (Serve_upstreams d start xs s)"
  by (induction xs arbitrary: s) (auto simp: Let_def split: prod.splits option.splits)

lemma Serve_upstreams_Cons_startListener:
  "Serve_upstreams d (startListener d) (uc0 # ucs) s =
     (let uc = prepareUpstream d (client (proxy s)) uc0 in
      if LocalBindPort uc < 1 then
        Serve_upstreams d (startListener d) ucs (printf (NoLocalBindPort (ucString d uc)) s)
      else
        Serve_upstreams d (startListener d) ucs
          (snd (startListener d (ucString d uc) (NewUpstreamListener (service (proxy s)) uc) s)))"
  by (auto simp: Let_def startListener_eq startListener_snd split: prod.splits option.splits)

lemma Serve_upstreams_proxy:
  "proxy (Serve_upstreams d (startListener d) ucs s) = proxy s"
proof (induction ucs arbitrary: s)
  case Nil
  then show ?case by simp
next
  case (Cons uc ucs)
  show ?case
    by (simp add: Serve_upstreams_Cons_startListener Let_def Cons.IH del: Serve_upstreams.simps)
qed

lemma LocalBindPort_prepareUpstream:
  "LocalBindPort (prepareUpstream d cl uc) = LocalBindPort (ucApplyDefaults d uc)"
  by (simp add: prepareUpstream_def Let_def)

lemma Serve_upstreams_spawned:
  "spawned (Serve_upstreams d (startListener d) ucs s) =
     spawned s @
     concat (map (\<lambda>uc. [(ListenerServe (ucString d uc) (NewUpstreamListener (service (proxy s)) uc), False),
                         (StopWaiter (NewUpstreamListener (service (proxy s)) uc), False)])
                 (filter (\<lambda>uc. 1 \<le> LocalBindPort uc)
                         (map (prepareUpstream d (client (proxy s))) ucs)))"
proof (induction ucs arbitrary: s)
  case Nil
  then show ?case by simp
next
  case (Cons uc ucs)
  show ?case
    by (simp add: Serve_upstreams_Cons_startListener Let_def Cons.IH del: Serve_upstreams.simps)
qed


lemma Serve_loop_Some_proxy:
  "proxy (snd (Serve_loop d (startListener d) (Some old) cs s)) = proxy s"
proof (induction cs arbitrary: old s)
  case Nil
  then show ?case by simp
next
  case (Cons c cs)
  show ?case
  proof (cases c)
    case (NewCfg newCfg)
    then show ?thesis
      by (simp add: Serve_newCfg_def Cons.IH Serve_upstreams_proxy)
  next
    case StopChan
    then show ?thesis by simp
  qed
qed


lemma Serve_first_proxy:
  assumes "NewService d (ProxiedServiceID newCfg) (client (proxy s)) = Inr svc"
  shows "proxy (snd (Serve d (NewCfg newCfg # cs) s)) = (proxy s)\<lparr>service := Some svc\<rparr>"
proof -
  let ?pl = "plApplyDefaults d (PublicListener newCfg)"
  let ?s3 = "snd (startListener d ''public listener'' (NewPublicListener (Some svc) ?pl)
                   (go (ReadyLogger svc)
                      ((printf GotNewConfig s)\<lparr>proxy := (proxy s)\<lparr>service := Some svc\<rparr>\<rparr>)))"
  have one: "Serve_newCfg d (startListener d) None newCfg s =
        (Selecting (Some (newCfg\<lparr>PublicListener := ?pl\<rparr>)),
         Serve_upstreams d (startListener d) (Upstreams newCfg) ?s3)"
    using assms
    by (auto simp: Serve_newCfg_def Serve_setup_def Let_def startListener_eq startListener_snd
             split: prod.splits option.splits)
  have "Serve d (NewCfg newCfg # cs) s =
          Serve_loop d (startListener d) (Some (newCfg\<lparr>PublicListener := ?pl\<rparr>)) cs
            (Serve_upstreams d (startListener d) (Upstreams newCfg) ?s3)"
    by (simp add: Serve_def one)
  then show ?thesis
    by (simp add: Serve_loop_Some_proxy Serve_upstreams_proxy)
qed

subsection \<open>What an iteration of Serve adds to the state\<close>








subsection \<open>The invariant of the stop waiters\<close>



















section \<open>The claims\<close>

text \<open>
  Claim C1. When the identity service cannot be built for the first snapshot
  (\<open>connect.NewService\<close> returns an error while \<open>cfg\<close> is still nil), \<open>Serve\<close> returns that
  error at once: the state it leaves is the one it found plus the line "got new config",
  so no goroutine was spawned and no listener started, and whatever the watcher would
  deliver next (\<open>cs\<close>) is never looked at. In the running system the same holds for good:
  in every schedule that continues after that snapshot, \<open>Serve\<close> stays returned with the
  error, the pool holds the goroutines it held before, and no further iteration of the
  loop occurs.
\<close>

theorem Serve_identity_failure_is_fatal:
  assumes "NewService d (ProxiedServiceID newCfg) (client (proxy s)) = Inl err"
  shows "Serve d (NewCfg newCfg # cs) s = (Returned (Some err), printf GotNewConfig s) \<and>
         (run d (Select (NewCfg newCfg) # es) (Selecting None, s) = Inr (st, s1) \<longrightarrow>
            st = Returned (Some err) \<and> map fst (spawned s1) = map fst (spawned s) \<and>
            (\<forall>c. Select c \<notin> set es))"
proof -
  have one: "Serve_newCfg d (startListener d) None newCfg s = (Returned (Some err), printf GotNewConfig s)"
    using assms by (simp add: Serve_newCfg_def Serve_setup_def)
  have a: "Serve d (NewCfg newCfg # cs) s = (Returned (Some err), printf GotNewConfig s)"
    by (simp add: Serve_def one)
  have b: "run d (Select (NewCfg newCfg) # es) (Selecting None, s) = Inr (st, s1) \<longrightarrow>
            st = Returned (Some err) \<and> map fst (spawned s1) = map fst (spawned s) \<and>
            (\<forall>c. Select c \<notin> set es)"
  proof
    assume "run d (Select (NewCfg newCfg) # es) (Selecting None, s) = Inr (st, s1)"
    then have "run d es (Returned (Some err), printf GotNewConfig s) = Inr (st, s1)"
      by (simp add: one)
    from run_Returned [OF this] show "st = Returned (Some err) \<and> map fst (spawned s1) = map fst (spawned s) \<and>
            (\<forall>c. Select c \<notin> set es)" by simp
  qed
  from a b show ?thesis by blast
qed

text \<open>The empty service id is refused; the snapshot that follows is not processed.\<close>

theorem Serve_identity_failure_is_fatal_witness:
  "NewService example_deps (ProxiedServiceID (example_config\<lparr>ProxiedServiceID := []\<rparr>))
     (client (proxy example_sys)) = Inl (Error ''no service id'') \<and>
   Serve example_deps [NewCfg (example_config\<lparr>ProxiedServiceID := []\<rparr>), NewCfg example_config]
     example_sys = (Returned (Some (Error ''no service id'')), printf GotNewConfig example_sys) \<and>
   run example_deps [Select (NewCfg (example_config\<lparr>ProxiedServiceID := []\<rparr>)), CallClose]
     (Selecting None, example_sys) =
     Inr (Returned (Some (Error ''no service id'')),
          \<lparr>proxy = example_proxy\<lparr>stopChan := Closed\<rparr>, spawned = [],
           trace = [Printf GotNewConfig, ChanClose]\<rparr>)"
proof -
  have h: "NewService example_deps (ProxiedServiceID (example_config\<lparr>ProxiedServiceID := []\<rparr>))
     (client (proxy example_sys)) = Inl (Error ''no service id'')"
    by (simp add: example_defs)
  have r: "run example_deps [Select (NewCfg (example_config\<lparr>ProxiedServiceID := []\<rparr>)), CallClose]
     (Selecting None, example_sys) =
     Inr (Returned (Some (Error ''no service id'')),
          \<lparr>proxy = example_proxy\<lparr>stopChan := Closed\<rparr>, spawned = [],
           trace = [Printf GotNewConfig, ChanClose]\<rparr>)"
    by (simp add: example_defs model_defs)
  from Serve_identity_failure_is_fatal [OF h, of "[NewCfg example_config]"] h r
  show ?thesis by simp
qed

text \<open>
  Claim C2. For every name and listener, \<open>startListener\<close> returns nil, and what it does
  before returning is log one line and spawn two goroutines, the one that serves and the
  one that waits for the stop channel; it waits for neither. When the serving goroutine
  later runs and \<open>l.Serve()\<close> returns an error, the only effect is the logged line
  "stopped with error": the status of \<open>Serve\<close> and the proxy stay as they were. (The call
  \<open>l.BindAddr()\<close> for the log line is taken to return.)
\<close>

theorem startListener_returns_nil:
  "fst (startListener d name l s) = None \<and>
   snd (startListener d name l s) =
     s\<lparr>trace := trace s @ [Printf (Starting name (BindAddr d l))],
       spawned := spawned s @ [(ListenerServe name l, False), (StopWaiter l, False)]\<rparr> \<and>
   step d (Run (length (spawned s)) (Some err)) (st, snd (startListener d name l s)) =
     Inr (st, s\<lparr>trace := trace s @ [Printf (Starting name (BindAddr d l)),
                                      Printf (StoppedWithError name err)],
                spawned := spawned s @ [(ListenerServe name l, True), (StopWaiter l, False)]\<rparr>)"
  by (simp add: startListener_def go_def printf_def nth_append list_update_append)

text \<open>The public listener of the example, whose Serve fails.\<close>

theorem startListener_returns_nil_witness:
  "fst (startListener example_deps ''public listener''
          (NewPublicListener None (PublicListenerConfig '':8443'')) example_sys) = None \<and>
   step example_deps (Run 0 (Some (Error ''accept failed'')))
     (Selecting None, snd (startListener example_deps ''public listener''
          (NewPublicListener None (PublicListenerConfig '':8443'')) example_sys)) =
     Inr (Selecting None,
          \<lparr>proxy = example_proxy,
           spawned = [(ListenerServe ''public listener''
                         (NewPublicListener None (PublicListenerConfig '':8443'')), True),
                      (StopWaiter (NewPublicListener None (PublicListenerConfig '':8443'')), False)],
           trace = [Printf (Starting ''public listener'' ''127.0.0.1''),
                    Printf (StoppedWithError ''public listener'' (Error ''accept failed''))]\<rparr>)"
  using startListener_returns_nil [of example_deps "''public listener''"
      "NewPublicListener None (PublicListenerConfig '':8443'')" example_sys
      "Error ''accept failed''" "Selecting None"]
  by (simp add: example_defs)



text \<open>
  Claim C4. Let a snapshot hold, anywhere in its upstream list, an entry whose
  \<open>LocalBindPort\<close> is below 1 when the loop tests it, that is after \<open>applyDefaults\<close> (a method
  declared outside the file; the logged message takes it to leave the port as
  configured). Then the upstream loop processes the entries before it, logs "has no
  local_bind_port" for it, and goes on with the entries after it; the goroutines spawned
  are those of the list without the entry, so no listener is built or started for it.
  It is not fatal: a later snapshot leaves \<open>Serve\<close> selecting with the snapshot as current
  config, and so does a first snapshot whose identity service could be built.
\<close>

theorem Serve_skips_upstream_without_port:
  assumes "Upstreams newCfg = pre @ uc # post"
    and "LocalBindPort (ucApplyDefaults d uc) < 1"
  shows "Serve_upstreams d (startListener d) (Upstreams newCfg) s =
           Serve_upstreams d (startListener d) post
             (printf (NoLocalBindPort (ucString d (prepareUpstream d (client (proxy s)) uc)))
                (Serve_upstreams d (startListener d) pre s)) \<and>
         spawned (Serve_upstreams d (startListener d) (Upstreams newCfg) s) =
           spawned (Serve_upstreams d (startListener d) (pre @ post) s) \<and>
         fst (Serve_newCfg d (startListener d) (Some old) newCfg s) = Selecting (Some newCfg) \<and>
         (NewService d (ProxiedServiceID newCfg) (client (proxy s)) = Inr svc \<longrightarrow>
            fst (Serve_newCfg d (startListener d) None newCfg s) =
              Selecting (Some (newCfg\<lparr>PublicListener := plApplyDefaults d (PublicListener newCfg)\<rparr>)))"
proof -
  have a: "Serve_upstreams d (startListener d) (Upstreams newCfg) s =
           Serve_upstreams d (startListener d) post
             (printf (NoLocalBindPort (ucString d (prepareUpstream d (client (proxy s)) uc)))
                (Serve_upstreams d (startListener d) pre s))"
    using assms
    by (simp add: Serve_upstreams_append Let_def Serve_upstreams_proxy LocalBindPort_prepareUpstream)
  have b: "spawned (Serve_upstreams d (startListener d) (Upstreams newCfg) s) =
           spawned (Serve_upstreams d (startListener d) (pre @ post) s)"
    using assms
    by (simp add: Serve_upstreams_spawned LocalBindPort_prepareUpstream)
  have c: "fst (Serve_newCfg d (startListener d) (Some old) newCfg s) = Selecting (Some newCfg)"
    by (simp add: Serve_newCfg_def)
  have e: "NewService d (ProxiedServiceID newCfg) (client (proxy s)) = Inr svc \<longrightarrow>
            fst (Serve_newCfg d (startListener d) None newCfg s) =
              Selecting (Some (newCfg\<lparr>PublicListener := plApplyDefaults d (PublicListener newCfg)\<rparr>))"
    by (simp add: Serve_newCfg_def Serve_setup_def Let_def startListener_def)
  from a b c e show ?thesis by blast
qed

text \<open>The example snapshot: port 5000 is started, port 0 is reported and skipped.\<close>

theorem Serve_skips_upstream_without_port_witness:
  "Upstreams example_config =
     [\<lparr>LocalBindPort = 5000, resolver = None, ucFields = ''db''\<rparr>] @
     \<lparr>LocalBindPort = 0, resolver = None, ucFields = ''cache''\<rparr> # [] \<and>
   LocalBindPort (ucApplyDefaults example_deps
     \<lparr>LocalBindPort = 0, resolver = None, ucFields = ''cache''\<rparr>) < 1 \<and>
   Serve_upstreams example_deps (startListener example_deps) (Upstreams example_config) example_sys =
     \<lparr>proxy = example_proxy,
      spawned =
        [(ListenerServe ''db'' (NewUpstreamListener None
            \<lparr>LocalBindPort = 5000, resolver = Some (Resolver 0), ucFields = ''db''\<rparr>), False),
         (StopWaiter (NewUpstreamListener None
            \<lparr>LocalBindPort = 5000, resolver = Some (Resolver 0), ucFields = ''db''\<rparr>), False)],
      trace = [Printf (Starting ''db'' ''127.0.0.1''), Printf (NoLocalBindPort ''cache'')]\<rparr> \<and>
   fst (Serve_newCfg example_deps (startListener example_deps) (Some example_config)
          example_config example_sys) = Selecting (Some example_config) \<and>
   fst (Serve_newCfg example_deps (startListener example_deps) None example_config example_sys) =
     Selecting (Some example_config)"
proof -
  have h1: "Upstreams example_config =
     [\<lparr>LocalBindPort = 5000, resolver = None, ucFields = ''db''\<rparr>] @
     \<lparr>LocalBindPort = 0, resolver = None, ucFields = ''cache''\<rparr> # []"
    by (simp add: example_defs)
  have h2: "LocalBindPort (ucApplyDefaults example_deps
     \<lparr>LocalBindPort = 0, resolver = None, ucFields = ''cache''\<rparr>) < 1"
    by (simp add: example_defs)
  have h3: "NewService example_deps (ProxiedServiceID example_config) (client (proxy example_sys)) =
     Inr (Service 1)"
    by (simp add: example_defs)
  have e: "Serve_upstreams example_deps (startListener example_deps) []
             (printf (NoLocalBindPort (ucString example_deps
                (prepareUpstream example_deps (client (proxy example_sys))
                   \<lparr>LocalBindPort = 0, resolver = None, ucFields = ''cache''\<rparr>)))
                (Serve_upstreams example_deps (startListener example_deps)
                   [\<lparr>LocalBindPort = 5000, resolver = None, ucFields = ''db''\<rparr>] example_sys)) =
     \<lparr>proxy = example_proxy,
      spawned =
        [(ListenerServe ''db'' (NewUpstreamListener None
            \<lparr>LocalBindPort = 5000, resolver = Some (Resolver 0), ucFields = ''db''\<rparr>), False),
         (StopWaiter (NewUpstreamListener None
            \<lparr>LocalBindPort = 5000, resolver = Some (Resolver 0), ucFields = ''db''\<rparr>), False)],
      trace = [Printf (Starting ''db'' ''127.0.0.1''), Printf (NoLocalBindPort ''cache'')]\<rparr>"
    by (simp add: example_defs model_defs)
  have pl: "example_config\<lparr>PublicListener := plApplyDefaults example_deps (PublicListener example_config)\<rparr>
              = example_config"
    by (simp add: example_defs)
  from Serve_skips_upstream_without_port [OF h1 h2, of example_sys example_config "Service 1"] h3 e pl
  have "Serve_upstreams example_deps (startListener example_deps) (Upstreams example_config) example_sys =
     \<lparr>proxy = example_proxy,
      spawned =
        [(ListenerServe ''db'' (NewUpstreamListener None
            \<lparr>LocalBindPort = 5000, resolver = Some (Resolver 0), ucFields = ''db''\<rparr>), False),
         (StopWaiter (NewUpstreamListener None
            \<lparr>LocalBindPort = 5000, resolver = Some (Resolver 0), ucFields = ''db''\<rparr>), False)],
      trace = [Printf (Starting ''db'' ''127.0.0.1''), Printf (NoLocalBindPort ''cache'')]\<rparr> \<and>
   fst (Serve_newCfg example_deps (startListener example_deps) (Some example_config)
          example_config example_sys) = Selecting (Some example_config) \<and>
   fst (Serve_newCfg example_deps (startListener example_deps) None example_config example_sys) =
     Selecting (Some example_config)"
    by simp
  with h1 h2 show ?thesis by blast
qed



text \<open>
  Claim C6. Whenever \<open>Serve\<close> takes the stop case of its \<open>select\<close>, it returns nil. In the
  loop: if \<open>Serve\<close> is still selecting after the cases \<open>pre\<close>, then on the stop case it
  returns nil, with the state unchanged, and later cases are not looked at. In the
  running system: once the stop channel is closed the stop case can be taken, and taking
  it makes \<open>Serve\<close> return nil.
\<close>

theorem Serve_stop_returns_nil:
  "(fst (Serve d pre s) = Selecting cfg \<longrightarrow>
      Serve d (pre @ StopChan # post) s = (Returned None, snd (Serve d pre s))) \<and>
   (stopChan (proxy s) = Closed \<longrightarrow>
      step d (Select StopChan) (Selecting cfg, s) = Inr (Returned None, s))"
  by (simp add: Serve_def Serve_loop_append)

text \<open>After one snapshot, and on a proxy whose stop channel is closed.\<close>

theorem Serve_stop_returns_nil_witness:
  "fst (Serve example_deps [NewCfg example_config] example_sys) = Selecting (Some example_config) \<and>
   Serve example_deps [NewCfg example_config, StopChan, NewCfg example_config] example_sys =
     (Returned None, snd (Serve example_deps [NewCfg example_config] example_sys)) \<and>
   stopChan (proxy (example_sys\<lparr>proxy := example_proxy\<lparr>stopChan := Closed\<rparr>\<rparr>)) = Closed \<and>
   step example_deps (Select StopChan)
     (Selecting None, example_sys\<lparr>proxy := example_proxy\<lparr>stopChan := Closed\<rparr>\<rparr>) =
     Inr (Returned None, example_sys\<lparr>proxy := example_proxy\<lparr>stopChan := Closed\<rparr>\<rparr>)"
proof -
  have h: "fst (Serve example_deps [NewCfg example_config] example_sys) = Selecting (Some example_config)"
    by (simp add: example_defs model_defs)
  from Serve_stop_returns_nil [of example_deps "[NewCfg example_config]" example_sys
      "Some example_config" "[NewCfg example_config]"] h
  have a: "Serve example_deps [NewCfg example_config, StopChan, NewCfg example_config] example_sys =
     (Returned None, snd (Serve example_deps [NewCfg example_config] example_sys))" by simp
  from h a show ?thesis by simp
qed



text \<open>
  Claim C8. \<open>Close\<close> on an open stop channel closes it, once, and after that closes the
  identity service if the proxy has one, and does nothing else. (On a closed channel it
  panics.) For a proxy built by \<open>New\<close>, to which no snapshot has been applied: \<open>Serve\<close>
  cannot take the stop case before \<open>Close\<close>; after \<open>Close\<close> it can, and returns nil; and
  the trace of \<open>Close\<close> is the closing of the channel alone, with no service closed.
\<close>

theorem Close_fires_once_then_closes_service:
  "(stopChan (proxy s) = Open \<longrightarrow>
      Close s = Inr (s\<lparr>proxy := (proxy s)\<lparr>stopChan := Closed\<rparr>,
                      trace := trace s @ ChanClose #
                        (case service (proxy s) of None \<Rightarrow> [] | Some svc \<Rightarrow> [ServiceClose svc])\<rparr>)) \<and>
   (stopChan (proxy s) = Closed \<longrightarrow> Close s = Inl CloseOfClosedChannel) \<and>
   (New d cl pid = Inr p \<longrightarrow>
      step d (Select StopChan) (boot p) = Inl NotEnabled \<and>
      run d [CallClose, Select StopChan] (boot p) =
        Inr (Returned None, \<lparr>proxy = p\<lparr>stopChan := Closed\<rparr>, spawned = [], trace = [ChanClose]\<rparr>))"
  by (auto simp: Close_def New_def boot_def split: option.splits sum.splits)

text \<open>The example proxy, without a service, with one, and closed twice.\<close>

theorem Close_fires_once_then_closes_service_witness:
  "New example_deps (Client 0) ''web-proxy'' = Inr example_proxy \<and>
   step example_deps (Select StopChan) (boot example_proxy) = Inl NotEnabled \<and>
   run example_deps [CallClose, Select StopChan] (boot example_proxy) =
     Inr (Returned None,
          \<lparr>proxy = example_proxy\<lparr>stopChan := Closed\<rparr>, spawned = [], trace = [ChanClose]\<rparr>) \<and>
   Close (example_sys\<lparr>proxy := example_proxy\<lparr>service := Some (Service 1)\<rparr>\<rparr>) =
     Inr \<lparr>proxy = example_proxy\<lparr>service := Some (Service 1), stopChan := Closed\<rparr>,
          spawned = [], trace = [ChanClose, ServiceClose (Service 1)]\<rparr> \<and>
   Close (example_sys\<lparr>proxy := example_proxy\<lparr>stopChan := Closed\<rparr>\<rparr>) = Inl CloseOfClosedChannel"
proof -
  have h: "New example_deps (Client 0) ''web-proxy'' = Inr example_proxy"
    by (simp add: example_defs model_defs)
  from Close_fires_once_then_closes_service [of example_sys example_deps "Client 0"
      "''web-proxy''" example_proxy] h
  have a: "step example_deps (Select StopChan) (boot example_proxy) = Inl NotEnabled \<and>
   run example_deps [CallClose, Select StopChan] (boot example_proxy) =
     Inr (Returned None,
          \<lparr>proxy = example_proxy\<lparr>stopChan := Closed\<rparr>, spawned = [], trace = [ChanClose]\<rparr>)"
    by blast
  have b: "Close (example_sys\<lparr>proxy := example_proxy\<lparr>service := Some (Service 1)\<rparr>\<rparr>) =
     Inr \<lparr>proxy = example_proxy\<lparr>service := Some (Service 1), stopChan := Closed\<rparr>,
          spawned = [], trace = [ChanClose, ServiceClose (Service 1)]\<rparr>"
    by (simp add: example_defs model_defs)
  have c: "Close (example_sys\<lparr>proxy := example_proxy\<lparr>stopChan := Closed\<rparr>\<rparr>) = Inl CloseOfClosedChannel"
    by (simp add: example_defs model_defs)
  from h a b c show ?thesis by blast
qed



text \<open>
  Claim C10. On the first snapshot \<open>Serve\<close> builds an identity service from the snapshot's
  \<open>ProxiedServiceID\<close> and stores it in the proxy, whatever the proxy held before, and it
  stays there over the snapshots that follow. In particular a proxy built by
  \<open>NewFromConfigFile\<close> holds the service made from the certificate files, and after the
  first snapshot it holds the one built by \<open>connect.NewService\<close> instead.
\<close>

theorem Serve_overwrites_service_on_first_snapshot:
  "(NewService d (ProxiedServiceID newCfg) (client (proxy s)) = Inr svc \<longrightarrow>
      service (proxy (snd (Serve d (NewCfg newCfg # cs) s))) = Some svc) \<and>
   (NewFromConfigFile d cl filename = Inr p \<and>
    NewService d (ProxiedServiceID newCfg) cl = Inr svc \<longrightarrow>
      (\<exists>cfg dev. ParseConfigFile d filename = Inr cfg \<and>
         NewDevServiceFromCertFiles d (ProxiedServiceID cfg) (DevCAFile cfg)
           (DevServiceCertFile cfg) (DevServiceKeyFile cfg) = Inr dev \<and>
         service p = Some dev) \<and>
      service (proxy (snd (Serve d (NewCfg newCfg # cs) \<lparr>proxy = p, spawned = [], trace = []\<rparr>)))
        = Some svc)"
proof -
  have a: "NewService d (ProxiedServiceID newCfg) (client (proxy s)) = Inr svc \<longrightarrow>
      service (proxy (snd (Serve d (NewCfg newCfg # cs) s))) = Some svc"
    by (simp add: Serve_first_proxy)
  have b: "NewFromConfigFile d cl filename = Inr p \<and>
    NewService d (ProxiedServiceID newCfg) cl = Inr svc \<longrightarrow>
      (\<exists>cfg dev. ParseConfigFile d filename = Inr cfg \<and>
         NewDevServiceFromCertFiles d (ProxiedServiceID cfg) (DevCAFile cfg)
           (DevServiceCertFile cfg) (DevServiceKeyFile cfg) = Inr dev \<and>
         service p = Some dev) \<and>
      service (proxy (snd (Serve d (NewCfg newCfg # cs) \<lparr>proxy = p, spawned = [], trace = []\<rparr>)))
        = Some svc"
  proof
    assume h: "NewFromConfigFile d cl filename = Inr p \<and>
      NewService d (ProxiedServiceID newCfg) cl = Inr svc"
    then obtain cfg dev where c: "ParseConfigFile d filename = Inr cfg"
      and dv: "NewDevServiceFromCertFiles d (ProxiedServiceID cfg) (DevCAFile cfg)
           (DevServiceCertFile cfg) (DevServiceKeyFile cfg) = Inr dev"
      and p: "p = \<lparr>proxyID = ProxyID cfg, client = cl,
                    cfgWatcher = NewStaticConfigWatcher cfg, stopChan = Open,
                    service = Some dev\<rparr>"
      by (auto simp: NewFromConfigFile_def split: sum.splits)
    from p have cl: "client (proxy \<lparr>proxy = p, spawned = [], trace = []\<rparr>) = cl" by simp
    from h cl have "NewService d (ProxiedServiceID newCfg)
        (client (proxy \<lparr>proxy = p, spawned = [], trace = []\<rparr>)) = Inr svc" by simp
    from Serve_first_proxy [OF this]
    have "service (proxy (snd (Serve d (NewCfg newCfg # cs) \<lparr>proxy = p, spawned = [], trace = []\<rparr>)))
        = Some svc" by simp
    moreover from c dv p have "\<exists>cfg dev. ParseConfigFile d filename = Inr cfg \<and>
         NewDevServiceFromCertFiles d (ProxiedServiceID cfg) (DevCAFile cfg)
           (DevServiceCertFile cfg) (DevServiceKeyFile cfg) = Inr dev \<and>
         service p = Some dev" by auto
    ultimately show "(\<exists>cfg dev. ParseConfigFile d filename = Inr cfg \<and>
         NewDevServiceFromCertFiles d (ProxiedServiceID cfg) (DevCAFile cfg)
           (DevServiceCertFile cfg) (DevServiceKeyFile cfg) = Inr dev \<and>
         service p = Some dev) \<and>
      service (proxy (snd (Serve d (NewCfg newCfg # cs) \<lparr>proxy = p, spawned = [], trace = []\<rparr>)))
        = Some svc" by blast
  qed
  from a b show ?thesis by blast
qed

text \<open>The proxy read from the example file: Service 0 is replaced by Service 1.\<close>

theorem Serve_overwrites_service_on_first_snapshot_witness:
  "NewFromConfigFile example_deps (Client 0) ''proxy.hcl'' =
     Inr \<lparr>proxyID = ''web-proxy'', client = Client 0,
          cfgWatcher = NewStaticConfigWatcher example_config, stopChan = Open,
          service = Some (Service 0)\<rparr> \<and>
   NewService example_deps (ProxiedServiceID example_config) (Client 0) = Inr (Service 1) \<and>
   service (proxy (snd (Serve example_deps [NewCfg example_config, NewCfg example_config]
     \<lparr>proxy = \<lparr>proxyID = ''web-proxy'', client = Client 0,
          cfgWatcher = NewStaticConfigWatcher example_config, stopChan = Open,
          service = Some (Service 0)\<rparr>, spawned = [], trace = []\<rparr>))) = Some (Service 1)"
proof -
  have h1: "NewFromConfigFile example_deps (Client 0) ''proxy.hcl'' =
     Inr \<lparr>proxyID = ''web-proxy'', client = Client 0,
          cfgWatcher = NewStaticConfigWatcher example_config, stopChan = Open,
          service = Some (Service 0)\<rparr>"
    by (simp add: example_defs model_defs)
  have h2: "NewService example_deps (ProxiedServiceID example_config) (Client 0) = Inr (Service 1)"
    by (simp add: example_defs)
  from Serve_overwrites_service_on_first_snapshot [of example_deps example_config example_sys
      "Service 1" "[NewCfg example_config]" "Client 0" "''proxy.hcl''"
      "\<lparr>proxyID = ''web-proxy'', client = Client 0,
          cfgWatcher = NewStaticConfigWatcher example_config, stopChan = Open,
          service = Some (Service 0)\<rparr>"] h1 h2
  show ?thesis by blast
qed

end
